theory Spec2Isabelle
  imports Main "HOL-Library.Sublist"
begin

section \<open>Avatar Productivity API: the task-completion transaction\<close>

text \<open>
  A shallow embedding of \<^verbatim>\<open>backend/server.py\<close>. The three MongoDB collections are
  lists of documents in insertion order; \<^verbatim>\<open>find_one\<close> returns the first document that
  matches, \<^verbatim>\<open>update_one\<close> changes the first document that matches, \<^verbatim>\<open>insert_one\<close>
  appends and \<^verbatim>\<open>delete_one\<close> removes the first document that matches. The field
  \<^verbatim>\<open>id\<close> of a document is an ordinary field (the code never declares it unique), so
  several documents may carry the same \<^verbatim>\<open>id\<close>.

  Every endpoint takes the database and returns its answer together with the database it
  leaves behind: an exception raised after a write leaves that write in place. Python
  integers are \<^typ>\<open>int\<close> (\<^verbatim>\<open>//\<close> is floor division, as \<open>div\<close> on \<^typ>\<open>int\<close>), a
  \<^verbatim>\<open>datetime\<close> is a point on an integer time line, strings are byte lists (the emoji of
  the two message templates are their UTF-8 bytes). What the environment supplies
  (\<^verbatim>\<open>os.getenv\<close>, \<^verbatim>\<open>datetime.now()\<close>, \<^verbatim>\<open>uuid.uuid4()\<close>, the answer of the language
  model) is a parameter. The store encodes an integer in at most eight bytes: a write
  whose document carries an integer outside the signed 64-bit range raises
  \<^verbatim>\<open>OverflowError\<close> and writes nothing. The \<^verbatim>\<open>print\<close> of the exception handler is not
  modelled.
\<close>

subsection \<open>Documents\<close>

type_synonym datetime = int

text \<open>
  Field names carry a prefix for their class, since the classes share field names:
  \<open>u_\<close> for \<^verbatim>\<open>User\<close>, \<open>t_\<close> for \<^verbatim>\<open>Task\<close>, \<open>a_\<close> for \<^verbatim>\<open>AvatarState\<close>.
\<close>

record User =
  u_id :: string
  u_name :: string
  u_email :: string
  u_xp :: int
  u_level :: int
  u_avatar_mood :: string
  u_created_at :: datetime

record Task =
  t_id :: string
  t_user_id :: string
  t_title :: string
  t_description :: "string option"
  t_completed :: bool
  t_xp_reward :: int
  t_created_at :: datetime
  t_completed_at :: "datetime option"

record AvatarState =
  a_id :: string
  a_user_id :: string
  a_mood :: string
  a_animation :: string
  a_message :: "string option"
  a_timestamp :: datetime

record TaskCreate =
  tc_title :: string
  tc_description :: "string option"
  tc_xp_reward :: int

text \<open>The defaults of the class declarations, for a request body that leaves them out.\<close>

definition default_User :: "string \<Rightarrow> string \<Rightarrow> string \<Rightarrow> datetime \<Rightarrow> User" where
  "default_User uuid name email now =
     \<lparr>u_id = uuid, u_name = name, u_email = email, u_xp = 0, u_level = 1,
      u_avatar_mood = ''neutral'', u_created_at = now\<rparr>"

definition default_TaskCreate :: "string \<Rightarrow> TaskCreate" where
  "default_TaskCreate title = \<lparr>tc_title = title, tc_description = None, tc_xp_reward = 10\<rparr>"

subsection \<open>The store\<close>

record db =
  users_collection :: "User list"
  tasks_collection :: "Task list"
  avatar_states_collection :: "AvatarState list"

definition empty_db :: db where
  "empty_db = \<lparr>users_collection = [], tasks_collection = [], avatar_states_collection = []\<rparr>"

fun find_one :: "('a \<Rightarrow> bool) \<Rightarrow> 'a list \<Rightarrow> 'a option" where
  "find_one p [] = None"
| "find_one p (x # xs) = (if p x then Some x else find_one p xs)"

fun update_one :: "('a \<Rightarrow> bool) \<Rightarrow> ('a \<Rightarrow> 'a) \<Rightarrow> 'a list \<Rightarrow> 'a list" where
  "update_one p f [] = []"
| "update_one p f (x # xs) = (if p x then f x # xs else x # update_one p f xs)"

definition insert_one :: "'a \<Rightarrow> 'a list \<Rightarrow> 'a list" where
  "insert_one x xs = xs @ [x]"

text \<open>
  The integers the store can encode, and the documents whose integers it can encode. The
  driver raises \<^verbatim>\<open>OverflowError\<close> on any other integer before anything is sent.
\<close>

definition bson_int :: "int \<Rightarrow> bool" where
  "bson_int i = (- 9223372036854775808 \<le> i \<and> i \<le> 9223372036854775807)"

definition encodable_User :: "User \<Rightarrow> bool" where
  "encodable_User u = (bson_int (u_xp u) \<and> bson_int (u_level u))"

definition encodable_Task :: "Task \<Rightarrow> bool" where
  "encodable_Task t = bson_int (t_xp_reward t)"

text \<open>\<^verbatim>\<open>delete_one\<close>: the collection left behind and \<^verbatim>\<open>deleted_count\<close>.\<close>

fun delete_one :: "('a \<Rightarrow> bool) \<Rightarrow> 'a list \<Rightarrow> 'a list \<times> nat" where
  "delete_one p [] = ([], 0)"
| "delete_one p (x # xs) =
     (if p x then (xs, 1) else (case delete_one p xs of (ys, n) \<Rightarrow> (x # ys, n)))"

text \<open>
  \<^verbatim>\<open>find_one(filter, sort=[("timestamp", -1)])\<close>: the first document of the matching
  ones in descending order of \<^verbatim>\<open>timestamp\<close>. Among documents with the same greatest
  timestamp the model returns the earliest inserted.
\<close>

fun latest :: "AvatarState list \<Rightarrow> AvatarState option" where
  "latest [] = None"
| "latest (a # as) =
     (case latest as of
        None \<Rightarrow> Some a
      | Some b \<Rightarrow> if a_timestamp a < a_timestamp b then Some b else Some a)"

definition find_one_sorted_desc :: "string \<Rightarrow> AvatarState list \<Rightarrow> AvatarState option" where
  "find_one_sorted_desc user_id xs = latest (filter (\<lambda>a. a_user_id a = user_id) xs)"

subsection \<open>Errors and the environment\<close>

text \<open>
  Python exceptions: the failures of the language-model client that the specification
  lists, the store's \<^verbatim>\<open>OverflowError\<close>, any other subclass of \<^verbatim>\<open>Exception\<close>, and the
  three that derive from \<^verbatim>\<open>BaseException\<close> only (\<^verbatim>\<open>asyncio.CancelledError\<close>, raised at
  an \<^verbatim>\<open>await\<close> when the request is cancelled, \<^verbatim>\<open>KeyboardInterrupt\<close> and
  \<^verbatim>\<open>SystemExit\<close>). A handler \<^verbatim>\<open>except Exception\<close> catches the exceptions of which
  \<open>is_Exception\<close> holds and no other.
\<close>

datatype py_exception =
  TimeoutError | NetworkError | AuthenticationError | MalformedResponse | OverflowError
  | OtherException string | CancelledError | KeyboardInterrupt | SystemExit

fun is_Exception :: "py_exception \<Rightarrow> bool" where
  "is_Exception CancelledError = False"
| "is_Exception KeyboardInterrupt = False"
| "is_Exception SystemExit = False"
| "is_Exception exn = True"

text \<open>
  What an endpoint raises: an \<^verbatim>\<open>HTTPException\<close> with its status code and detail, or an
  exception nothing handles (the framework answers 500).
\<close>

datatype failure = HTTPException nat string | Unhandled py_exception

record LlmChat =
  api_key :: string
  session_id :: string
  system_message :: string
  provider :: string
  model :: string

record env =
  EMERGENT_LLM_KEY :: "string option"
  send_message :: "LlmChat \<Rightarrow> string \<Rightarrow> py_exception + string"
  now_completed :: datetime
  uuid4 :: string
  now_state :: datetime

subsection \<open>Formatting\<close>

fun digits :: "nat \<Rightarrow> string" where
  "digits n =
     (if n < 10 then [char_of (48 + n)] else digits (n div 10) @ [char_of (48 + n mod 10)])"

declare digits.simps [simp del]

text \<open>\<^verbatim>\<open>str\<close> of an integer, as an f-string formats it.\<close>

definition str_int :: "int \<Rightarrow> string" where
  "str_int i = (if i < 0 then CHR ''-'' # digits (nat (- i)) else digits (nat i))"

text \<open>
  The integer a decimal string denotes, the reading that \<^verbatim>\<open>int\<close> gives to what
  \<^verbatim>\<open>str\<close> writes.
\<close>

definition digit_value :: "char \<Rightarrow> nat" where
  "digit_value c = of_char c - 48"

definition decimal_nat :: "string \<Rightarrow> nat" where
  "decimal_nat cs = foldl (\<lambda>acc c. 10 * acc + digit_value c) 0 cs"

definition decimal_int :: "string \<Rightarrow> int" where
  "decimal_int cs =
     (case cs of
        [] \<Rightarrow> 0
      | c # ds \<Rightarrow> if c = CHR ''-'' then - int (decimal_nat ds) else int (decimal_nat cs))"

definition party_popper :: string where
  "party_popper = [CHR 0xF0, CHR 0x9F, CHR 0x8E, CHR 0x89]"

definition direct_hit :: string where
  "direct_hit = [CHR 0xF0, CHR 0x9F, CHR 0x8E, CHR 0xAF]"

subsection \<open>The coaching message\<close>

definition static_fallback :: string where
  "static_fallback = ''Great job completing that task! Keep up the excellent work!''"

definition templated_fallback :: "string \<Rightarrow> int \<Rightarrow> string" where
  "templated_fallback task_title user_level =
     ''Amazing work on '' @ [CHR 0x27] @ task_title @ [CHR 0x27] @
     ''! You're crushing it at level '' @
     str_int user_level @ ''! '' @ party_popper"

text \<open>The \<^verbatim>\<open>LlmChat\<close> the code builds, and the text of its \<^verbatim>\<open>UserMessage\<close>.\<close>

definition coaching_chat :: "string \<Rightarrow> string \<Rightarrow> LlmChat" where
  "coaching_chat emergent_key user_name =
     \<lparr>api_key = emergent_key,
      session_id = ''avatar_coaching_'' @ user_name,
      system_message =
        ''You are '' @ user_name @ [CHR 0x27] @
        ''s personal AI avatar companion and productivity coach. You live in their virtual world and your happiness depends on their productivity. Respond as their encouraging avatar friend, not as an AI assistant. Be enthusiastic, personal, and motivating. Keep responses under 50 words.'',
      provider = ''openai'', model = ''gpt-4o-mini''\<rparr>"

definition user_message :: "string \<Rightarrow> int \<Rightarrow> int \<Rightarrow> string" where
  "user_message task_title xp_gained user_level =
     ''I just completed the task '' @ [CHR 0x27] @ task_title @ [CHR 0x27] @
     ''! I gained '' @ str_int xp_gained @ '' XP and I'm now level '' @
     str_int user_level @ ''. Celebrate with me as my avatar companion!''"

text \<open>
  The body of the \<^verbatim>\<open>try\<close> block: \<open>Inl\<close> is an exception raised inside it. A missing or
  empty key is falsy.
\<close>

definition coaching_try ::
  "env \<Rightarrow> string \<Rightarrow> string \<Rightarrow> int \<Rightarrow> int \<Rightarrow> py_exception + string" where
  "coaching_try e user_name task_title user_level xp_gained =
     (case EMERGENT_LLM_KEY e of
        None \<Rightarrow> Inr static_fallback
      | Some emergent_key \<Rightarrow>
          if emergent_key = [] then Inr static_fallback
          else
            send_message e (coaching_chat emergent_key user_name)
              (user_message task_title xp_gained user_level))"

text \<open>
  \<^verbatim>\<open>get_ai_coaching_message\<close>: the \<^verbatim>\<open>try\<close> block under \<^verbatim>\<open>except Exception\<close>. \<open>Inl\<close>
  is an exception that the handler does not catch and that reaches the caller.
\<close>

definition get_ai_coaching_message ::
  "env \<Rightarrow> string \<Rightarrow> string \<Rightarrow> int \<Rightarrow> int \<Rightarrow> py_exception + string" where
  "get_ai_coaching_message e user_name task_title user_level xp_gained =
     (case coaching_try e user_name task_title user_level xp_gained of
        Inr response \<Rightarrow> Inr response
      | Inl exn \<Rightarrow>
          if is_Exception exn then Inr (templated_fallback task_title user_level)
          else Inl exn)"

subsection \<open>Endpoints\<close>

definition create_user :: "User \<Rightarrow> db \<Rightarrow> (failure + User) \<times> db" where
  "create_user user s =
     (if encodable_User user
      then (Inr user, s\<lparr>users_collection := insert_one user (users_collection s)\<rparr>)
      else (Inl (Unhandled OverflowError), s))"

definition get_user :: "string \<Rightarrow> db \<Rightarrow> (failure + User) \<times> db" where
  "get_user user_id s =
     (case find_one (\<lambda>u. u_id u = user_id) (users_collection s) of
        None \<Rightarrow> (Inl (HTTPException 404 ''User not found''), s)
      | Some user \<Rightarrow> (Inr user, s))"

text \<open>\<^verbatim>\<open>create_task\<close>; \<open>uuid\<close> and \<open>now\<close> are the defaults the \<^verbatim>\<open>Task\<close> class draws.\<close>

definition create_task ::
  "string \<Rightarrow> datetime \<Rightarrow> TaskCreate \<Rightarrow> string \<Rightarrow> db \<Rightarrow> (failure + Task) \<times> db" where
  "create_task uuid now task_create user_id s =
     (let task = \<lparr>t_id = uuid, t_user_id = user_id, t_title = tc_title task_create,
                  t_description = tc_description task_create, t_completed = False,
                  t_xp_reward = tc_xp_reward task_create, t_created_at = now,
                  t_completed_at = None\<rparr>
      in if encodable_Task task
         then (Inr task, s\<lparr>tasks_collection := insert_one task (tasks_collection s)\<rparr>)
         else (Inl (Unhandled OverflowError), s))"

definition get_user_tasks :: "string \<Rightarrow> db \<Rightarrow> (failure + Task list) \<times> db" where
  "get_user_tasks user_id s =
     (Inr (filter (\<lambda>t. t_user_id t = user_id) (tasks_collection s)), s)"

record completion =
  r_message :: string
  r_xp_gained :: int
  r_new_xp :: int
  r_new_level :: int
  r_level_up :: bool
  r_avatar_mood :: string
  r_ai_message :: string

definition complete_task :: "env \<Rightarrow> string \<Rightarrow> db \<Rightarrow> (failure + completion) \<times> db" where
  "complete_task e task_id s =
     (case find_one (\<lambda>t. t_id t = task_id) (tasks_collection s) of
        None \<Rightarrow> (Inl (HTTPException 404 ''Task not found''), s)
      | Some task \<Rightarrow>
          if t_completed task then (Inl (HTTPException 400 ''Task already completed''), s)
          else
            let s1 = s\<lparr>tasks_collection :=
                         update_one (\<lambda>t. t_id t = task_id)
                           (\<lambda>t. t\<lparr>t_completed := True,
                                  t_completed_at := Some (now_completed e)\<rparr>)
                           (tasks_collection s)\<rparr>
            in
            case find_one (\<lambda>u. u_id u = t_user_id task) (users_collection s1) of
              None \<Rightarrow> (Inl (HTTPException 404 ''User not found''), s1)
            | Some user \<Rightarrow>
                let new_xp = u_xp user + t_xp_reward task;
                    new_level = max 1 (new_xp div 100);
                    new_mood = (if new_level > u_level user then ''excited'' else ''happy'')
                in
                if \<not> (bson_int new_xp \<and> bson_int new_level)
                then (Inl (Unhandled OverflowError), s1)
                else
                let s2 = s1\<lparr>users_collection :=
                              update_one (\<lambda>u. u_id u = t_user_id task)
                                (\<lambda>u. u\<lparr>u_xp := new_xp, u_level := new_level,
                                       u_avatar_mood := new_mood\<rparr>)
                                (users_collection s1)\<rparr>
                in
                case get_ai_coaching_message e (u_name user) (t_title task) new_level
                       (t_xp_reward task) of
                  Inl exn \<Rightarrow> (Inl (Unhandled exn), s2)
                | Inr ai_message \<Rightarrow>
                    let avatar_state =
                          \<lparr>a_id = uuid4 e, a_user_id = t_user_id task, a_mood = new_mood,
                           a_animation =
                             (if new_level > u_level user then ''celebrate''
                              else ''happy_bounce''),
                           a_message = Some ai_message, a_timestamp = now_state e\<rparr>;
                        s3 = s2\<lparr>avatar_states_collection :=
                                  insert_one avatar_state (avatar_states_collection s2)\<rparr>
                    in
                    (Inr \<lparr>r_message = ''Task completed successfully!'',
                          r_xp_gained = t_xp_reward task, r_new_xp = new_xp,
                          r_new_level = new_level,
                          r_level_up = (new_level > u_level user),
                          r_avatar_mood = new_mood, r_ai_message = ai_message\<rparr>,
                     s3))"

record avatar_state_view =
  v_mood :: string
  v_animation :: string
  v_message :: "string option"
  v_xp :: int
  v_level :: int

definition greeting :: "string \<Rightarrow> string" where
  "greeting name =
     ''Hey '' @ name @ ''! I'm ready to celebrate your productivity! '' @ direct_hit"

definition get_avatar_state :: "string \<Rightarrow> db \<Rightarrow> (failure + avatar_state_view) \<times> db" where
  "get_avatar_state user_id s =
     (case find_one (\<lambda>u. u_id u = user_id) (users_collection s) of
        None \<Rightarrow> (Inl (HTTPException 404 ''User not found''), s)
      | Some user \<Rightarrow>
          (case find_one_sorted_desc user_id (avatar_states_collection s) of
             None \<Rightarrow>
               (Inr \<lparr>v_mood = u_avatar_mood user, v_animation = ''idle'',
                     v_message = Some (greeting (u_name user)),
                     v_xp = u_xp user, v_level = u_level user\<rparr>, s)
           | Some latest_state \<Rightarrow>
               (Inr \<lparr>v_mood = a_mood latest_state, v_animation = a_animation latest_state,
                     v_message = a_message latest_state,
                     v_xp = u_xp user, v_level = u_level user\<rparr>, s)))"

definition delete_task :: "string \<Rightarrow> db \<Rightarrow> (failure + string) \<times> db" where
  "delete_task task_id s =
     (case delete_one (\<lambda>t. t_id t = task_id) (tasks_collection s) of
        (ts, deleted_count) \<Rightarrow>
          if deleted_count = 0
          then (Inl (HTTPException 404 ''Task not found''), s\<lparr>tasks_collection := ts\<rparr>)
          else (Inr ''Task deleted successfully'', s\<lparr>tasks_collection := ts\<rparr>))"

subsection \<open>The level rule\<close>

definition level_of :: "int \<Rightarrow> int" where
  "level_of xp = max 1 (xp div 100)"

definition level_ok :: "User \<Rightarrow> bool" where
  "level_ok u = (u_level u = level_of (u_xp u))"

subsection \<open>Example environments and stores\<close>

text \<open>No credential configured; the language model is never reached.\<close>

definition env_no_key :: env where
  "env_no_key =
     \<lparr>EMERGENT_LLM_KEY = None, send_message = (\<lambda>chat text. Inr ''Well done!''),
      now_completed = 10, uuid4 = ''a1'', now_state = 11\<rparr>"

text \<open>A credential is configured and the call to the language model times out.\<close>

definition env_llm_down :: env where
  "env_llm_down =
     \<lparr>EMERGENT_LLM_KEY = Some ''sk-test'', send_message = (\<lambda>chat text. Inl TimeoutError),
      now_completed = 10, uuid4 = ''a1'', now_state = 11\<rparr>"

text \<open>A credential is configured and the request is cancelled while the call is awaited.\<close>

definition env_cancelled :: env where
  "env_cancelled =
     \<lparr>EMERGENT_LLM_KEY = Some ''sk-test'', send_message = (\<lambda>chat text. Inl CancelledError),
      now_completed = 10, uuid4 = ''a1'', now_state = 11\<rparr>"

text \<open>Scenario 1 of the specification: a user with 190 XP at level 1, a task worth 15 XP.\<close>

definition alice :: User where
  "alice = (default_User ''u1'' ''Alice'' ''alice@example.com'' 0)\<lparr>u_xp := 190\<rparr>"

definition report_task :: Task where
  "report_task =
     \<lparr>t_id = ''t1'', t_user_id = ''u1'', t_title = ''Write report'', t_description = None,
      t_completed = False, t_xp_reward = 15, t_created_at = 1, t_completed_at = None\<rparr>"

definition scenario_db :: db where
  "scenario_db =
     \<lparr>users_collection = [alice], tasks_collection = [report_task],
      avatar_states_collection = []\<rparr>"

text \<open>A task created for a user id that no user document carries.\<close>

definition orphan_db :: db where
  "orphan_db =
     snd (create_task ''t1'' 1
            \<lparr>tc_title = ''Write report'', tc_description = None, tc_xp_reward = 15\<rparr>
            ''ghost'' empty_db)"

text \<open>A user posted with 250 XP and level 1, and a task of the default reward for them.\<close>

definition bob :: User where
  "bob = (default_User ''u2'' ''Bob'' ''bob@example.com'' 0)\<lparr>u_xp := 250\<rparr>"

definition stale_level_db :: db where
  "stale_level_db =
     snd (create_task ''t2'' 1 (default_TaskCreate ''Tidy desk'') ''u2''
            (snd (create_user bob empty_db)))"

text \<open>
  A user posted with the greatest XP the store can hold, at the level of that XP, and a
  task of the default reward for them.
\<close>

definition carol :: User where
  "carol = (default_User ''u3'' ''Carol'' ''carol@example.com'' 0)
             \<lparr>u_xp := 9223372036854775807, u_level := 92233720368547758\<rparr>"

definition full_xp_db :: db where
  "full_xp_db =
     snd (create_task ''t3'' 1 (default_TaskCreate ''Tidy desk'') ''u3''
            (snd (create_user carol empty_db)))"

text \<open>Two avatar states of \<open>u1\<close>, the later one inserted first, and one of another user.\<close>

definition history_db :: db where
  "history_db =
     \<lparr>users_collection = [alice], tasks_collection = [],
      avatar_states_collection =
        [\<lparr>a_id = ''a1'', a_user_id = ''u1'', a_mood = ''excited'', a_animation = ''celebrate'',
          a_message = Some ''Level up!'', a_timestamp = 9\<rparr>,
         \<lparr>a_id = ''a2'', a_user_id = ''u1'', a_mood = ''happy'',
          a_animation = ''happy_bounce'', a_message = Some ''Nice.'', a_timestamp = 5\<rparr>,
         \<lparr>a_id = ''a3'', a_user_id = ''u9'', a_mood = ''happy'',
          a_animation = ''happy_bounce'', a_message = None, a_timestamp = 20\<rparr>]\<rparr>"

section \<open>Properties\<close>

subsection \<open>The store operations\<close>

lemma find_one_Some: "find_one p xs = Some x \<Longrightarrow> p x \<and> x \<in> set xs"
  by (induction xs) (auto split: if_splits)

lemma find_one_None: "find_one p xs = None \<Longrightarrow> update_one p f xs = xs"
  by (induction xs) (auto split: if_splits)

lemma find_one_update_one:
  "find_one p xs = Some x \<Longrightarrow> p (f x) \<Longrightarrow> find_one p (update_one p f xs) = Some (f x)"
  by (induction xs) (auto split: if_splits)

lemma map_update_one: "(\<And>x. g (f x) = g x) \<Longrightarrow> map g (update_one p f xs) = map g xs"
  by (induction xs) auto

lemma sum_list_update_one:
  "find_one p xs = Some x \<Longrightarrow>
   sum_list (map g (update_one p f xs)) = sum_list (map g xs) - g x + (g (f x) :: int)"
  by (induction xs) (auto split: if_splits)

lemma list_all_update_one:
  "list_all P xs \<Longrightarrow> (\<And>x. P (f x)) \<Longrightarrow> list_all P (update_one p f xs)"
  by (induction xs) auto

lemma delete_one_cases:
  "delete_one p xs = (ys, n) \<Longrightarrow>
   (n = 0 \<and> ys = xs) \<or> (n = 1 \<and> (\<exists>as t bs. xs = as @ t # bs \<and> ys = as @ bs))"
proof (induction xs arbitrary: ys n)
  case Nil
  then show ?case by simp
next
  case (Cons x xs)
  show ?case
  proof (cases "p x")
    case True
    with Cons.prems have "n = 1" "ys = xs" by simp_all
    then have "x # xs = [] @ x # xs \<and> ys = [] @ xs" by simp
    with \<open>n = 1\<close> show ?thesis by blast
  next
    case False
    obtain zs k where rest: "delete_one p xs = (zs, k)"
      by (cases "delete_one p xs")
    with False Cons.prems have out: "ys = x # zs" "n = k" by simp_all
    from Cons.IH [OF rest] show ?thesis
    proof
      assume "k = 0 \<and> zs = xs"
      with out show ?thesis by simp
    next
      assume "k = 1 \<and> (\<exists>as t bs. xs = as @ t # bs \<and> zs = as @ bs)"
      then obtain as t bs where "k = 1" "xs = as @ t # bs" "zs = as @ bs" by blast
      with out have "n = 1" "x # xs = (x # as) @ t # bs \<and> ys = (x # as) @ bs" by simp_all
      then show ?thesis by blast
    qed
  qed
qed

lemma latest_None: "latest xs = None \<longleftrightarrow> xs = []"
  by (induction xs) (auto split: option.splits)

lemma latest_Some:
  "latest xs = Some a \<Longrightarrow> a \<in> set xs \<and> (\<forall>b \<in> set xs. a_timestamp b \<le> a_timestamp a)"
  by (induction xs arbitrary: a) (auto split: option.splits if_splits simp: latest_None)

lemma bson_int_level: "bson_int x \<Longrightarrow> bson_int (max 1 (x div 100))"
  unfolding bson_int_def max_def by (simp split: if_splits) linarith

subsection \<open>Decimal strings\<close>

lemma of_char_digit: "d < 10 \<Longrightarrow> of_char (char_of (48 + d) :: char) = (48 + d :: nat)"
  by simp

lemma digit_value_digit: "d < 10 \<Longrightarrow> digit_value (char_of (48 + d)) = d"
  by (simp add: digit_value_def)

lemma digit_not_minus: "d < 10 \<Longrightarrow> char_of (48 + (d::nat)) \<noteq> CHR ''-''"
proof
  assume d: "d < 10" and eq: "char_of (48 + d) = CHR ''-''"
  from eq have "of_char (char_of (48 + d) :: char) = (of_char CHR ''-'' :: nat)"
    by simp
  with d show False
    by simp
qed

lemma decimal_nat_snoc: "decimal_nat (cs @ [c]) = 10 * decimal_nat cs + digit_value c"
  by (simp add: decimal_nat_def)

lemma decimal_nat_digits: "decimal_nat (digits n) = n"
proof (induction n rule: digits.induct)
  case (1 n)
  show ?case
  proof (cases "n < 10")
    case True
    then show ?thesis
      by (simp add: digits.simps [of n] decimal_nat_def digit_value_digit)
  next
    case False
    with "1" have "decimal_nat (digits (n div 10)) = n div 10"
      by simp
    with False show ?thesis
      by (simp add: digits.simps [of n] decimal_nat_snoc digit_value_digit)
  qed
qed

lemma digits_no_minus: "c \<in> set (digits n) \<Longrightarrow> c \<noteq> CHR ''-''"
proof (induction n rule: digits.induct)
  case (1 n)
  show ?case
  proof (cases "n < 10")
    case True
    with "1.prems" show ?thesis
      by (simp add: digits.simps [of n] digit_not_minus)
  next
    case False
    with "1.prems" have "c \<in> set (digits (n div 10)) \<or> c = char_of (48 + n mod 10)"
      by (auto simp: digits.simps [of n])
    then show ?thesis
    proof
      assume "c \<in> set (digits (n div 10))"
      with "1.IH" False show ?thesis by simp
    next
      assume "c = char_of (48 + n mod 10)"
      then show ?thesis by (simp add: digit_not_minus)
    qed
  qed
qed

lemma digits_nonempty: "digits n \<noteq> []"
  by (simp add: digits.simps [of n])

lemma decimal_int_str_int: "decimal_int (str_int i) = i"
proof (cases "i < 0")
  case True
  then show ?thesis
    by (simp add: str_int_def decimal_int_def decimal_nat_digits)
next
  case False
  obtain c ds where cs: "digits (nat i) = c # ds"
    using digits_nonempty [of "nat i"] by (cases "digits (nat i)") auto
  then have "c \<in> set (digits (nat i))"
    by simp
  then have "c \<noteq> CHR ''-''"
    by (rule digits_no_minus)
  moreover have "decimal_nat (c # ds) = nat i"
    using decimal_nat_digits [of "nat i"] cs by simp
  ultimately show ?thesis
    using False cs by (simp add: str_int_def decimal_int_def)
qed

lemma str_int_12: "str_int 12 = ''12''"
  by code_simp

subsection \<open>The endpoints, path by path\<close>

lemma get_ai_coaching_message_cases:
  "(\<exists>m. get_ai_coaching_message e n t l x = Inr m) \<or>
   (\<exists>exn. get_ai_coaching_message e n t l x = Inl exn \<and> \<not> is_Exception exn)"
  by (cases "coaching_try e n t l x") (auto simp: get_ai_coaching_message_def)

lemma get_ai_coaching_message_no_key:
  "EMERGENT_LLM_KEY e = None \<or> EMERGENT_LLM_KEY e = Some [] \<Longrightarrow>
   get_ai_coaching_message e n t l x = Inr static_fallback"
  by (auto simp: get_ai_coaching_message_def coaching_try_def)

lemma get_ai_coaching_message_llm_down:
  "get_ai_coaching_message env_llm_down n t l x = Inr (templated_fallback t l)"
  by (simp add: get_ai_coaching_message_def coaching_try_def env_llm_down_def)

lemma complete_task_task_missing:
  "find_one (\<lambda>t. t_id t = task_id) (tasks_collection s) = None \<Longrightarrow>
   complete_task e task_id s = (Inl (HTTPException 404 ''Task not found''), s)"
  by (simp add: complete_task_def)

lemma complete_task_already_completed:
  "find_one (\<lambda>t. t_id t = task_id) (tasks_collection s) = Some task \<Longrightarrow> t_completed task \<Longrightarrow>
   complete_task e task_id s = (Inl (HTTPException 400 ''Task already completed''), s)"
  by (simp add: complete_task_def)

lemma complete_task_user_missing:
  "find_one (\<lambda>t. t_id t = task_id) (tasks_collection s) = Some task \<Longrightarrow> \<not> t_completed task \<Longrightarrow>
   find_one (\<lambda>u. u_id u = t_user_id task) (users_collection s) = None \<Longrightarrow>
   complete_task e task_id s =
     (Inl (HTTPException 404 ''User not found''),
      s\<lparr>tasks_collection :=
           update_one (\<lambda>t. t_id t = task_id)
             (\<lambda>t. t\<lparr>t_completed := True, t_completed_at := Some (now_completed e)\<rparr>)
             (tasks_collection s)\<rparr>)"
  by (simp add: complete_task_def)

lemma complete_task_overflow:
  assumes "find_one (\<lambda>t. t_id t = task_id) (tasks_collection s) = Some task"
    and "\<not> t_completed task"
    and "find_one (\<lambda>u. u_id u = t_user_id task) (users_collection s) = Some user"
    and "\<not> bson_int (u_xp user + t_xp_reward task)"
  shows "complete_task e task_id s =
     (Inl (Unhandled OverflowError),
      s\<lparr>tasks_collection :=
           update_one (\<lambda>t. t_id t = task_id)
             (\<lambda>t. t\<lparr>t_completed := True, t_completed_at := Some (now_completed e)\<rparr>)
             (tasks_collection s)\<rparr>)"
  using assms by (simp add: complete_task_def Let_def)

lemma complete_task_success:
  assumes "find_one (\<lambda>t. t_id t = task_id) (tasks_collection s) = Some task"
    and "\<not> t_completed task"
    and "find_one (\<lambda>u. u_id u = t_user_id task) (users_collection s) = Some user"
    and "bson_int (u_xp user + t_xp_reward task)"
    and "get_ai_coaching_message e (u_name user) (t_title task)
           (max 1 ((u_xp user + t_xp_reward task) div 100)) (t_xp_reward task) = Inr m"
  shows "complete_task e task_id s =
     (Inr \<lparr>r_message = ''Task completed successfully!'',
           r_xp_gained = t_xp_reward task, r_new_xp = u_xp user + t_xp_reward task,
           r_new_level = max 1 ((u_xp user + t_xp_reward task) div 100),
           r_level_up = (max 1 ((u_xp user + t_xp_reward task) div 100) > u_level user),
           r_avatar_mood =
             (if max 1 ((u_xp user + t_xp_reward task) div 100) > u_level user
              then ''excited'' else ''happy''),
           r_ai_message = m\<rparr>,
      \<lparr>users_collection =
         update_one (\<lambda>u. u_id u = t_user_id task)
           (\<lambda>u. u\<lparr>u_xp := u_xp user + t_xp_reward task,
                  u_level := max 1 ((u_xp user + t_xp_reward task) div 100),
                  u_avatar_mood :=
                    (if max 1 ((u_xp user + t_xp_reward task) div 100) > u_level user
                     then ''excited'' else ''happy'')\<rparr>)
           (users_collection s),
       tasks_collection =
         update_one (\<lambda>t. t_id t = task_id)
           (\<lambda>t. t\<lparr>t_completed := True, t_completed_at := Some (now_completed e)\<rparr>)
           (tasks_collection s),
       avatar_states_collection =
         avatar_states_collection s @
           [\<lparr>a_id = uuid4 e, a_user_id = t_user_id task,
             a_mood =
               (if max 1 ((u_xp user + t_xp_reward task) div 100) > u_level user
                then ''excited'' else ''happy''),
             a_animation =
               (if max 1 ((u_xp user + t_xp_reward task) div 100) > u_level user
                then ''celebrate'' else ''happy_bounce''),
             a_message = Some m, a_timestamp = now_state e\<rparr>]\<rparr>)"
  using assms by (simp add: complete_task_def Let_def insert_one_def bson_int_level)

lemma complete_task_uncaught:
  assumes "find_one (\<lambda>t. t_id t = task_id) (tasks_collection s) = Some task"
    and "\<not> t_completed task"
    and "find_one (\<lambda>u. u_id u = t_user_id task) (users_collection s) = Some user"
    and "bson_int (u_xp user + t_xp_reward task)"
    and "get_ai_coaching_message e (u_name user) (t_title task)
           (max 1 ((u_xp user + t_xp_reward task) div 100)) (t_xp_reward task) = Inl exn"
  shows "complete_task e task_id s =
     (Inl (Unhandled exn),
      \<lparr>users_collection =
         update_one (\<lambda>u. u_id u = t_user_id task)
           (\<lambda>u. u\<lparr>u_xp := u_xp user + t_xp_reward task,
                  u_level := max 1 ((u_xp user + t_xp_reward task) div 100),
                  u_avatar_mood :=
                    (if max 1 ((u_xp user + t_xp_reward task) div 100) > u_level user
                     then ''excited'' else ''happy'')\<rparr>)
           (users_collection s),
       tasks_collection =
         update_one (\<lambda>t. t_id t = task_id)
           (\<lambda>t. t\<lparr>t_completed := True, t_completed_at := Some (now_completed e)\<rparr>)
           (tasks_collection s),
       avatar_states_collection = avatar_states_collection s\<rparr>)"
  using assms by (simp add: complete_task_def Let_def bson_int_level)

text \<open>What both outcomes of an awarded completion leave in the users and tasks.\<close>

lemma complete_task_awarded:
  assumes task: "find_one (\<lambda>t. t_id t = task_id) (tasks_collection s) = Some task"
    and fresh: "\<not> t_completed task"
    and owner: "find_one (\<lambda>u. u_id u = t_user_id task) (users_collection s) = Some user"
    and fits: "bson_int (u_xp user + t_xp_reward task)"
  shows "users_collection (snd (complete_task e task_id s)) =
         update_one (\<lambda>u. u_id u = t_user_id task)
           (\<lambda>u. u\<lparr>u_xp := u_xp user + t_xp_reward task,
                  u_level := max 1 ((u_xp user + t_xp_reward task) div 100),
                  u_avatar_mood :=
                    (if max 1 ((u_xp user + t_xp_reward task) div 100) > u_level user
                     then ''excited'' else ''happy'')\<rparr>)
           (users_collection s) \<and>
         tasks_collection (snd (complete_task e task_id s)) =
         update_one (\<lambda>t. t_id t = task_id)
           (\<lambda>t. t\<lparr>t_completed := True, t_completed_at := Some (now_completed e)\<rparr>)
           (tasks_collection s) \<and>
         ((\<exists>r. fst (complete_task e task_id s) = Inr r \<and> r_xp_gained r = t_xp_reward task) \<or>
          (\<exists>exn. fst (complete_task e task_id s) = Inl (Unhandled exn) \<and>
                 \<not> is_Exception exn))"
proof -
  let ?msg = "get_ai_coaching_message e (u_name user) (t_title task)
           (max 1 ((u_xp user + t_xp_reward task) div 100)) (t_xp_reward task)"
  from get_ai_coaching_message_cases
  have "(\<exists>m. ?msg = Inr m) \<or> (\<exists>exn. ?msg = Inl exn \<and> \<not> is_Exception exn)" .
  then show ?thesis
  proof (elim disjE exE conjE)
    fix m assume "?msg = Inr m"
    from complete_task_success [OF task fresh owner fits this]
    show ?thesis by simp
  next
    fix exn assume "?msg = Inl exn" and base: "\<not> is_Exception exn"
    from complete_task_uncaught [OF task fresh owner fits this(1)] base
    show ?thesis by simp
  qed
qed

lemma complete_task_InrD:
  assumes "complete_task e task_id s = (Inr r, s')"
  shows "\<exists>task user m.
           find_one (\<lambda>t. t_id t = task_id) (tasks_collection s) = Some task \<and>
           \<not> t_completed task \<and>
           find_one (\<lambda>u. u_id u = t_user_id task) (users_collection s) = Some user \<and>
           get_ai_coaching_message e (u_name user) (t_title task)
             (max 1 ((u_xp user + t_xp_reward task) div 100)) (t_xp_reward task) = Inr m \<and>
           bson_int (u_xp user + t_xp_reward task)"
  using assms
  by (auto simp: complete_task_def Let_def split: option.splits if_splits sum.splits)

lemma complete_task_users:
  "users_collection (snd (complete_task e task_id s)) = users_collection s \<or>
   (\<exists>p xp mood. users_collection (snd (complete_task e task_id s)) =
      update_one p (\<lambda>u. u\<lparr>u_xp := xp, u_level := max 1 (xp div 100), u_avatar_mood := mood\<rparr>)
        (users_collection s))"
  by (auto simp: complete_task_def Let_def split: option.splits sum.splits)

subsection \<open>The example stores, evaluated\<close>

lemma scenario_task:
  "find_one (\<lambda>t. t_id t = ''t1'') (tasks_collection scenario_db) = Some report_task"
  by (simp add: scenario_db_def report_task_def)

lemma scenario_owner:
  "find_one (\<lambda>u. u_id u = t_user_id report_task) (users_collection scenario_db) = Some alice"
  by (simp add: scenario_db_def report_task_def alice_def default_User_def)

lemma scenario_values:
  "\<not> t_completed report_task" "t_xp_reward report_task = 15" "t_user_id report_task = ''u1''"
  "u_xp alice = 190" "u_level alice = 1" "avatar_states_collection scenario_db = []"
  by (simp_all add: report_task_def alice_def default_User_def scenario_db_def)

lemma scenario_fits: "bson_int (u_xp alice + t_xp_reward report_task)"
  by (simp add: scenario_values bson_int_def)

lemma scenario_run:
  "\<exists>r s'. complete_task env_llm_down ''t1'' scenario_db = (Inr r, s')"
  using complete_task_success [OF scenario_task scenario_values(1) scenario_owner scenario_fits
      get_ai_coaching_message_llm_down]
  by blast

lemma static_fallback_lacks_title: "\<not> sublist ''Write report'' static_fallback"
  unfolding static_fallback_def by code_simp

lemma stale_level_values:
  "find_one (\<lambda>t. t_id t = ''t2'') (tasks_collection stale_level_db) =
     Some \<lparr>t_id = ''t2'', t_user_id = ''u2'', t_title = ''Tidy desk'', t_description = None,
           t_completed = False, t_xp_reward = 10, t_created_at = 1, t_completed_at = None\<rparr>"
  "find_one (\<lambda>u. u_id u = ''u2'') (users_collection stale_level_db) = Some bob"
  "u_xp bob = 250" "u_level bob = 1"
  by (simp_all add: stale_level_db_def create_task_def create_user_def empty_db_def
      insert_one_def default_TaskCreate_def bob_def default_User_def encodable_User_def
      encodable_Task_def bson_int_def Let_def)

subsection \<open>Completion awards the reward once\<close>

text \<open>
  C2, as the code has it. Take an existing task that is not yet completed, whose owner
  exists, and let the owner's XP plus the reward be an integer the store can encode. Then
  completing it awards exactly the task's \<^verbatim>\<open>xp_reward\<close>: the owner's XP grows by it, and
  so does the sum of XP over all user documents. The call answers with \<^verbatim>\<open>xp_gained\<close> equal
  to the reward, unless an exception that \<^verbatim>\<open>except Exception\<close> does not catch came out of
  the coaching call, after the award. A second call for the same task, whatever the
  environment then, fails with status 400 "Task already completed" and leaves the whole
  database, so also every user's XP, as it was.
\<close>

theorem complete_task_awards_once:
  assumes task: "find_one (\<lambda>t. t_id t = task_id) (tasks_collection s) = Some task"
    and fresh: "\<not> t_completed task"
    and owner: "find_one (\<lambda>u. u_id u = t_user_id task) (users_collection s) = Some user"
    and fits: "bson_int (u_xp user + t_xp_reward task)"
  shows "\<exists>res s' user'.
           complete_task e task_id s = (res, s') \<and>
           ((\<exists>r. res = Inr r \<and> r_xp_gained r = t_xp_reward task) \<or>
            (\<exists>exn. res = Inl (Unhandled exn) \<and> \<not> is_Exception exn)) \<and>
           find_one (\<lambda>u. u_id u = t_user_id task) (users_collection s') = Some user' \<and>
           u_xp user' = u_xp user + t_xp_reward task \<and>
           sum_list (map u_xp (users_collection s')) =
             sum_list (map u_xp (users_collection s)) + t_xp_reward task \<and>
           complete_task e' task_id s' =
             (Inl (HTTPException 400 ''Task already completed''), s')"
proof -
  let ?res = "fst (complete_task e task_id s)"
  let ?s' = "snd (complete_task e task_id s)"
  let ?done = "\<lambda>t. t\<lparr>t_completed := True, t_completed_at := Some (now_completed e)\<rparr>"
  note awarded = complete_task_awarded [OF task fresh owner fits, of e]
  from awarded have users: "users_collection ?s' =
         update_one (\<lambda>u. u_id u = t_user_id task)
           (\<lambda>u. u\<lparr>u_xp := u_xp user + t_xp_reward task,
                  u_level := max 1 ((u_xp user + t_xp_reward task) div 100),
                  u_avatar_mood :=
                    (if max 1 ((u_xp user + t_xp_reward task) div 100) > u_level user
                     then ''excited'' else ''happy'')\<rparr>)
           (users_collection s)"
    and tasks: "tasks_collection ?s' =
         update_one (\<lambda>t. t_id t = task_id) ?done (tasks_collection s)"
    and outcome: "(\<exists>r. ?res = Inr r \<and> r_xp_gained r = t_xp_reward task) \<or>
         (\<exists>exn. ?res = Inl (Unhandled exn) \<and> \<not> is_Exception exn)"
    by simp_all
  from task have hit: "t_id task = task_id"
    by (auto dest: find_one_Some)
  have "find_one (\<lambda>t. t_id t = task_id) (tasks_collection ?s') = Some (?done task)"
    using task hit by (simp add: tasks find_one_update_one)
  then have again: "complete_task e' task_id ?s' =
      (Inl (HTTPException 400 ''Task already completed''), ?s')"
    by (rule complete_task_already_completed) simp
  from owner have uid: "u_id user = t_user_id task"
    by (auto dest: find_one_Some)
  have found: "find_one (\<lambda>u. u_id u = t_user_id task) (users_collection ?s') =
      Some (user\<lparr>u_xp := u_xp user + t_xp_reward task,
                 u_level := max 1 ((u_xp user + t_xp_reward task) div 100),
                 u_avatar_mood :=
                   (if max 1 ((u_xp user + t_xp_reward task) div 100) > u_level user
                    then ''excited'' else ''happy'')\<rparr>)"
    using owner uid by (simp add: users find_one_update_one)
  have total: "sum_list (map u_xp (users_collection ?s')) =
      sum_list (map u_xp (users_collection s)) + t_xp_reward task"
    using owner by (simp add: users sum_list_update_one)
  have "complete_task e task_id s = (?res, ?s')"
    by simp
  with outcome found total again show ?thesis
    by (intro exI [of _ ?res] exI [of _ ?s']) simp
qed

text \<open>Scenario 1: 190 XP and a task of 15 XP give 205 XP; the second call is refused.\<close>

theorem complete_task_awards_once_witness:
  "find_one (\<lambda>t. t_id t = ''t1'') (tasks_collection scenario_db) = Some report_task \<and>
   \<not> t_completed report_task \<and>
   find_one (\<lambda>u. u_id u = t_user_id report_task) (users_collection scenario_db) = Some alice \<and>
   bson_int (u_xp alice + t_xp_reward report_task) \<and>
   (\<exists>r s' user'.
      complete_task env_llm_down ''t1'' scenario_db = (Inr r, s') \<and>
      r_xp_gained r = 15 \<and>
      find_one (\<lambda>u. u_id u = ''u1'') (users_collection s') = Some user' \<and>
      u_xp user' = 205 \<and>
      sum_list (map u_xp (users_collection s')) = 205 \<and>
      complete_task env_no_key ''t1'' s' =
        (Inl (HTTPException 400 ''Task already completed''), s'))"
proof -
  obtain r s' where run: "complete_task env_llm_down ''t1'' scenario_db = (Inr r, s')"
    using scenario_run by blast
  have total: "sum_list (map u_xp (users_collection scenario_db)) = 190"
    by (simp add: scenario_db_def scenario_values)
  from complete_task_awards_once
    [OF scenario_task scenario_values(1) scenario_owner scenario_fits, of env_llm_down env_no_key]
  show ?thesis
    unfolding run
    using scenario_task scenario_owner scenario_fits total
    by (auto simp: scenario_values)
qed

text \<open>
  A user holds 9223372036854775807 XP, the greatest integer the store encodes, and
  completes a task worth 10 XP. The write of the new XP raises \<^verbatim>\<open>OverflowError\<close>: the call
  fails, the user's XP is what it was, and the task is completed.
\<close>

theorem complete_task_full_xp_counterexample:
  "map t_id (tasks_collection full_xp_db) = [''t3''] \<and>
   map t_user_id (tasks_collection full_xp_db) = [''u3''] \<and>
   map t_completed (tasks_collection full_xp_db) = [False] \<and>
   map t_xp_reward (tasks_collection full_xp_db) = [10] \<and>
   map u_id (users_collection full_xp_db) = [''u3''] \<and>
   map u_xp (users_collection full_xp_db) = [9223372036854775807] \<and>
   fst (complete_task env_no_key ''t3'' full_xp_db) = Inl (Unhandled OverflowError) \<and>
   map u_xp (users_collection (snd (complete_task env_no_key ''t3'' full_xp_db))) =
     [9223372036854775807] \<and>
   map t_completed (tasks_collection (snd (complete_task env_no_key ''t3'' full_xp_db))) =
     [True]"
  by (simp add: complete_task_def full_xp_db_def create_task_def create_user_def
      empty_db_def insert_one_def default_TaskCreate_def carol_def default_User_def
      encodable_User_def encodable_Task_def bson_int_def Let_def)

subsection \<open>What a successful completion returns and records\<close>

text \<open>
  C4. Whenever \<^verbatim>\<open>complete_task\<close> succeeds, the task \<open>task\<close> it found and the user \<open>user\<close>
  that owns it determine the answer: \<^verbatim>\<open>xp_gained\<close> is the task's reward, \<^verbatim>\<open>new_xp\<close> is the
  user's XP plus the reward, \<^verbatim>\<open>new_level\<close> is \<open>max 1 (new_xp div 100)\<close>, \<^verbatim>\<open>level_up\<close> says
  whether the new level exceeds the user's level, and the mood is "excited" on a level-up
  and "happy" otherwise. The one avatar state appended carries that mood, the animation
  "celebrate" on a level-up and "happy_bounce" otherwise, and the message returned.
\<close>

theorem complete_task_result:
  assumes run: "complete_task e task_id s = (Inr r, s')"
  shows "\<exists>task user a.
           find_one (\<lambda>t. t_id t = task_id) (tasks_collection s) = Some task \<and>
           find_one (\<lambda>u. u_id u = t_user_id task) (users_collection s) = Some user \<and>
           r_xp_gained r = t_xp_reward task \<and>
           r_new_xp r = u_xp user + t_xp_reward task \<and>
           r_new_level r = max 1 (r_new_xp r div 100) \<and>
           r_level_up r = (r_new_level r > u_level user) \<and>
           r_avatar_mood r = (if r_level_up r then ''excited'' else ''happy'') \<and>
           avatar_states_collection s' = avatar_states_collection s @ [a] \<and>
           a_user_id a = t_user_id task \<and>
           a_mood a = r_avatar_mood r \<and>
           a_animation a = (if r_level_up r then ''celebrate'' else ''happy_bounce'') \<and>
           a_message a = Some (r_ai_message r)"
proof -
  from complete_task_InrD [OF run] obtain task user m where
    task: "find_one (\<lambda>t. t_id t = task_id) (tasks_collection s) = Some task" and
    fresh: "\<not> t_completed task" and
    owner: "find_one (\<lambda>u. u_id u = t_user_id task) (users_collection s) = Some user" and
    m: "get_ai_coaching_message e (u_name user) (t_title task)
          (max 1 ((u_xp user + t_xp_reward task) div 100)) (t_xp_reward task) = Inr m" and
    fits: "bson_int (u_xp user + t_xp_reward task)"
    by blast
  from run have r: "r = projr (fst (complete_task e task_id s))"
    and s': "s' = snd (complete_task e task_id s)"
    by simp_all
  show ?thesis
    unfolding r s' complete_task_success [OF task fresh owner fits m]
    using task owner by (intro exI [of _ task] exI [of _ user]) simp
qed

text \<open>
  Scenario 1: a user with 190 XP at level 1 completes a task worth 15 XP and gets
  \<^verbatim>\<open>xp_gained\<close> 15, \<^verbatim>\<open>new_xp\<close> 205, \<^verbatim>\<open>new_level\<close> 2, a level-up and the mood "excited".
\<close>

theorem complete_task_result_witness:
  "\<exists>r s'. complete_task env_llm_down ''t1'' scenario_db = (Inr r, s') \<and>
     r_xp_gained r = 15 \<and> r_new_xp r = 205 \<and> r_new_level r = 2 \<and> r_level_up r \<and>
     r_avatar_mood r = ''excited'' \<and>
     (\<exists>a. avatar_states_collection s' = [a] \<and> a_mood a = ''excited'' \<and>
          a_animation a = ''celebrate'')"
proof -
  obtain r s' where run: "complete_task env_llm_down ''t1'' scenario_db = (Inr r, s')"
    using scenario_run by blast
  from complete_task_result [OF run]
  show ?thesis
    unfolding run scenario_task using scenario_owner scenario_values by auto
qed

subsection \<open>The level-up flag\<close>

text \<open>
  C6, as the code has it. On success \<^verbatim>\<open>level_up\<close> compares the level of the new XP with
  the level stored on the user document, not with the level of the old XP. The two agree
  when the stored level is the level of the stored XP.
\<close>

theorem level_up_compares_stored_level:
  assumes run: "complete_task e task_id s = (Inr r, s')"
  shows "\<exists>task user.
           find_one (\<lambda>t. t_id t = task_id) (tasks_collection s) = Some task \<and>
           find_one (\<lambda>u. u_id u = t_user_id task) (users_collection s) = Some user \<and>
           r_level_up r = (level_of (u_xp user + t_xp_reward task) > u_level user) \<and>
           (level_ok user \<longrightarrow>
              r_level_up r =
                (level_of (u_xp user + t_xp_reward task) > level_of (u_xp user)))"
proof -
  from complete_task_InrD [OF run] obtain task user m where
    task: "find_one (\<lambda>t. t_id t = task_id) (tasks_collection s) = Some task" and
    fresh: "\<not> t_completed task" and
    owner: "find_one (\<lambda>u. u_id u = t_user_id task) (users_collection s) = Some user" and
    m: "get_ai_coaching_message e (u_name user) (t_title task)
          (max 1 ((u_xp user + t_xp_reward task) div 100)) (t_xp_reward task) = Inr m" and
    fits: "bson_int (u_xp user + t_xp_reward task)"
    by blast
  from run have r: "r = projr (fst (complete_task e task_id s))"
    by simp
  show ?thesis
    unfolding r complete_task_success [OF task fresh owner fits m]
    using task owner
    by (intro exI [of _ task] exI [of _ user]) (simp add: level_of_def level_ok_def)
qed

theorem level_up_compares_stored_level_witness:
  "\<exists>r s'. complete_task env_llm_down ''t1'' scenario_db = (Inr r, s') \<and>
     level_ok alice \<and> r_level_up r = (level_of (190 + 15) > level_of 190) \<and> r_level_up r"
proof -
  obtain r s' where run: "complete_task env_llm_down ''t1'' scenario_db = (Inr r, s')"
    using scenario_run by blast
  have ok: "level_ok alice"
    by (simp add: level_ok_def level_of_def scenario_values)
  from level_up_compares_stored_level [OF run]
  show ?thesis
    unfolding run scenario_task using scenario_owner ok scenario_values
    by (auto simp: level_of_def)
qed

text \<open>
  A user posted with 250 XP and level 1 completes a task worth 10 XP: the XP goes from
  250 to 260, level 2 both before and after by the rule, and yet \<^verbatim>\<open>level_up\<close> is true.
\<close>

theorem level_up_stale_level_counterexample:
  "find_one (\<lambda>u. u_id u = ''u2'') (users_collection stale_level_db) = Some bob \<and>
   u_xp bob = 250 \<and>
   isl (fst (complete_task env_no_key ''t2'' stale_level_db)) = False \<and>
   r_new_xp (projr (fst (complete_task env_no_key ''t2'' stale_level_db))) = 260 \<and>
   r_level_up (projr (fst (complete_task env_no_key ''t2'' stale_level_db))) \<noteq>
     (level_of 260 > level_of 250)"
  by (simp add: complete_task_def stale_level_db_def create_task_def create_user_def
      empty_db_def insert_one_def default_TaskCreate_def bob_def default_User_def
      get_ai_coaching_message_def coaching_try_def env_no_key_def level_of_def Let_def
      encodable_User_def encodable_Task_def bson_int_def)

subsection \<open>Completion without a credential\<close>

text \<open>
  C5, as the code has it. When \<^verbatim>\<open>EMERGENT_LLM_KEY\<close> is unset or empty, completing an
  existing task that is not yet completed, for an owner that exists and whose XP plus the
  reward the store can encode, succeeds, and its \<^verbatim>\<open>ai_message\<close> is the fixed, non-empty
  sentence below. The sentence is the same for every task: the title is not put into it.
\<close>

theorem complete_task_without_credential:
  assumes nokey: "EMERGENT_LLM_KEY e = None \<or> EMERGENT_LLM_KEY e = Some []"
    and task: "find_one (\<lambda>t. t_id t = task_id) (tasks_collection s) = Some task"
    and fresh: "\<not> t_completed task"
    and owner: "find_one (\<lambda>u. u_id u = t_user_id task) (users_collection s) = Some user"
    and fits: "bson_int (u_xp user + t_xp_reward task)"
  shows "\<exists>r s'. complete_task e task_id s = (Inr r, s') \<and>
           r_ai_message r = ''Great job completing that task! Keep up the excellent work!'' \<and>
           r_ai_message r \<noteq> []"
proof -
  note m = get_ai_coaching_message_no_key [OF nokey]
  show ?thesis
    unfolding complete_task_success [OF task fresh owner fits m]
    by (simp add: static_fallback_def)
qed

theorem complete_task_without_credential_witness:
  "EMERGENT_LLM_KEY env_no_key = None \<and>
   bson_int (u_xp alice + t_xp_reward report_task) \<and>
   (\<exists>r s'. complete_task env_no_key ''t1'' scenario_db = (Inr r, s') \<and>
      r_ai_message r = ''Great job completing that task! Keep up the excellent work!'')"
proof -
  have nokey: "EMERGENT_LLM_KEY env_no_key = None \<or> EMERGENT_LLM_KEY env_no_key = Some []"
    by (simp add: env_no_key_def)
  from complete_task_without_credential
    [OF nokey scenario_task scenario_values(1) scenario_owner scenario_fits]
  show ?thesis
    using scenario_fits by (auto simp: env_no_key_def)
qed

text \<open>
  Without a credential the task titled "Write report" is completed with a message in
  which "Write report" does not occur.
\<close>

theorem fallback_without_credential_lacks_title_counterexample:
  "EMERGENT_LLM_KEY env_no_key = None \<and>
   t_title report_task = ''Write report'' \<and>
   isl (fst (complete_task env_no_key ''t1'' scenario_db)) = False \<and>
   \<not> sublist (t_title report_task)
       (r_ai_message (projr (fst (complete_task env_no_key ''t1'' scenario_db))))"
proof -
  have nokey: "EMERGENT_LLM_KEY env_no_key = None \<or> EMERGENT_LLM_KEY env_no_key = Some []"
    by (simp add: env_no_key_def)
  note m = get_ai_coaching_message_no_key [OF nokey]
  have title: "t_title report_task = ''Write report''"
    by (simp add: report_task_def)
  show ?thesis
    unfolding complete_task_success
      [OF scenario_task scenario_values(1) scenario_owner scenario_fits m]
    using static_fallback_lacks_title by (simp add: title env_no_key_def)
qed

subsection \<open>A failed completion can leave a write behind\<close>

text \<open>
  C1 at a failing input. A task is created for the user id "ghost", which no user
  document carries. Completing it fails with status 404 "User not found", and the task,
  not completed before the call, is completed after it; the next attempt is refused with
  status 400 "Task already completed". The other two failures are raised before the first
  write (\<open>complete_task_task_missing\<close>, \<open>complete_task_already_completed\<close>).
\<close>

theorem complete_task_missing_user_leaves_task_completed:
  "find_one (\<lambda>u. u_id u = ''ghost'') (users_collection orphan_db) = None \<and>
   map t_user_id (tasks_collection orphan_db) = [''ghost''] \<and>
   map t_completed (tasks_collection orphan_db) = [False] \<and>
   fst (complete_task env_no_key ''t1'' orphan_db) = Inl (HTTPException 404 ''User not found'') \<and>
   map t_completed (tasks_collection (snd (complete_task env_no_key ''t1'' orphan_db))) = [True] \<and>
   fst (complete_task env_no_key ''t1'' (snd (complete_task env_no_key ''t1'' orphan_db))) =
     Inl (HTTPException 400 ''Task already completed'')"
  by (simp add: complete_task_def orphan_db_def create_task_def empty_db_def insert_one_def
      Let_def encodable_Task_def bson_int_def)

subsection \<open>The level rule under the mutating endpoints\<close>

text \<open>
  C3, as the code has it. \<^verbatim>\<open>complete_task\<close> keeps the rule
  \<open>level = max 1 (xp div 100)\<close> on every user document, whatever its outcome, and when it
  awards the reward the owner's document gets the new XP and the level \<open>max 1 (xp div 100)\<close>
  of the new XP, whatever level it carried before. \<^verbatim>\<open>create_user\<close> stores XP and level
  as posted when the store can encode them, and stores nothing and raises
  \<^verbatim>\<open>OverflowError\<close> otherwise; so after it the rule holds of every user document exactly
  when it held before and holds of the posted one, if that one was stored. The defaults of
  the \<^verbatim>\<open>User\<close> class (0 XP, level 1) satisfy the rule.
\<close>

theorem level_rule_steps:
  "(list_all level_ok (users_collection s) \<longrightarrow>
      list_all level_ok (users_collection (snd (complete_task e task_id s)))) \<and>
   (\<forall>task user.
      find_one (\<lambda>t. t_id t = task_id) (tasks_collection s) = Some task \<and>
      \<not> t_completed task \<and>
      find_one (\<lambda>u. u_id u = t_user_id task) (users_collection s) = Some user \<and>
      bson_int (u_xp user + t_xp_reward task) \<longrightarrow>
      (\<exists>user'.
         find_one (\<lambda>u. u_id u = t_user_id task)
           (users_collection (snd (complete_task e task_id s))) = Some user' \<and>
         u_xp user' = u_xp user + t_xp_reward task \<and>
         u_level user' = max 1 ((u_xp user + t_xp_reward task) div 100))) \<and>
   (encodable_User user \<longrightarrow>
      fst (create_user user s) = Inr user \<and>
      users_collection (snd (create_user user s)) = users_collection s @ [user]) \<and>
   (\<not> encodable_User user \<longrightarrow>
      fst (create_user user s) = Inl (Unhandled OverflowError) \<and>
      snd (create_user user s) = s) \<and>
   (list_all level_ok (users_collection (snd (create_user user s))) =
      (list_all level_ok (users_collection s) \<and> (encodable_User user \<longrightarrow> level_ok user))) \<and>
   level_ok (default_User uuid name email now)"
proof (intro conjI impI allI)
  assume inv: "list_all level_ok (users_collection s)"
  from complete_task_users [of e task_id s]
  show "list_all level_ok (users_collection (snd (complete_task e task_id s)))"
  proof
    assume "users_collection (snd (complete_task e task_id s)) = users_collection s"
    with inv show ?thesis by simp
  next
    assume "\<exists>p xp mood. users_collection (snd (complete_task e task_id s)) =
      update_one p (\<lambda>u. u\<lparr>u_xp := xp, u_level := max 1 (xp div 100), u_avatar_mood := mood\<rparr>)
        (users_collection s)"
    then obtain p xp mood where upd: "users_collection (snd (complete_task e task_id s)) =
      update_one p (\<lambda>u. u\<lparr>u_xp := xp, u_level := max 1 (xp div 100), u_avatar_mood := mood\<rparr>)
        (users_collection s)"
      by blast
    show ?thesis
      unfolding upd using inv
      by (rule list_all_update_one) (simp add: level_ok_def level_of_def)
  qed
next
  fix task user
  assume hyp: "find_one (\<lambda>t. t_id t = task_id) (tasks_collection s) = Some task \<and>
      \<not> t_completed task \<and>
      find_one (\<lambda>u. u_id u = t_user_id task) (users_collection s) = Some user \<and>
      bson_int (u_xp user + t_xp_reward task)"
  then have task: "find_one (\<lambda>t. t_id t = task_id) (tasks_collection s) = Some task"
    and fresh: "\<not> t_completed task"
    and owner: "find_one (\<lambda>u. u_id u = t_user_id task) (users_collection s) = Some user"
    and fits: "bson_int (u_xp user + t_xp_reward task)"
    by simp_all
  from owner have uid: "u_id user = t_user_id task"
    by (auto dest: find_one_Some)
  from complete_task_awarded [OF task fresh owner fits, of e]
  have "find_one (\<lambda>u. u_id u = t_user_id task)
          (users_collection (snd (complete_task e task_id s))) =
      Some (user\<lparr>u_xp := u_xp user + t_xp_reward task,
                 u_level := max 1 ((u_xp user + t_xp_reward task) div 100),
                 u_avatar_mood :=
                   (if max 1 ((u_xp user + t_xp_reward task) div 100) > u_level user
                    then ''excited'' else ''happy'')\<rparr>)"
    using owner uid by (simp add: find_one_update_one)
  then show "\<exists>user'.
         find_one (\<lambda>u. u_id u = t_user_id task)
           (users_collection (snd (complete_task e task_id s))) = Some user' \<and>
         u_xp user' = u_xp user + t_xp_reward task \<and>
         u_level user' = max 1 ((u_xp user + t_xp_reward task) div 100)"
    by simp
next
  assume "encodable_User user"
  then show "fst (create_user user s) = Inr user"
    and "users_collection (snd (create_user user s)) = users_collection s @ [user]"
    by (simp_all add: create_user_def insert_one_def)
next
  assume "\<not> encodable_User user"
  then show "fst (create_user user s) = Inl (Unhandled OverflowError)"
    and "snd (create_user user s) = s"
    by (simp_all add: create_user_def)
next
  show "list_all level_ok (users_collection (snd (create_user user s))) =
      (list_all level_ok (users_collection s) \<and> (encodable_User user \<longrightarrow> level_ok user))"
    by (simp add: create_user_def insert_one_def)
next
  show "level_ok (default_User uuid name email now)"
    by (simp add: level_ok_def level_of_def default_User_def)
qed

text \<open>
  Scenario 1 keeps the rule; the user posted with 250 XP and level 1 is at 260 XP and
  level 2 after a task worth 10 XP; a user with the default level is stored; a user with
  9223372036854775808 XP is not.
\<close>

theorem level_rule_steps_witness:
  "list_all level_ok (users_collection scenario_db) \<and>
   list_all level_ok (users_collection (snd (complete_task env_llm_down ''t1'' scenario_db))) \<and>
   u_xp bob = 250 \<and> u_level bob = 1 \<and>
   (\<exists>user'. find_one (\<lambda>u. u_id u = ''u2'')
              (users_collection (snd (complete_task env_llm_down ''t2'' stale_level_db))) =
              Some user' \<and>
            u_xp user' = 260 \<and> u_level user' = 2) \<and>
   encodable_User alice \<and>
   fst (create_user alice empty_db) = Inr alice \<and>
   list_all level_ok (users_collection (snd (create_user alice empty_db))) \<and>
   \<not> encodable_User (alice\<lparr>u_xp := 9223372036854775808\<rparr>) \<and>
   create_user (alice\<lparr>u_xp := 9223372036854775808\<rparr>) empty_db =
     (Inl (Unhandled OverflowError), empty_db)"
proof -
  have ok: "level_ok alice"
    by (simp add: level_ok_def level_of_def scenario_values)
  then have inv: "list_all level_ok (users_collection scenario_db)"
    by (simp add: scenario_db_def)
  have empty: "list_all level_ok (users_collection empty_db)"
    by (simp add: empty_db_def)
  have enc: "encodable_User alice"
    by (simp add: encodable_User_def bson_int_def scenario_values)
  have over: "\<not> encodable_User (alice\<lparr>u_xp := 9223372036854775808\<rparr>)"
    by (simp add: encodable_User_def bson_int_def)
  have fits: "bson_int (u_xp bob + 10)"
    by (simp add: stale_level_values bson_int_def)
  note a = level_rule_steps [of scenario_db env_llm_down "''t1''" alice]
  note b = level_rule_steps [of stale_level_db env_llm_down "''t2''" alice]
  note c = level_rule_steps [of empty_db env_llm_down "''t1''" alice]
  note d = level_rule_steps
    [of empty_db env_llm_down "''t1''" "alice\<lparr>u_xp := 9223372036854775808\<rparr>"]
  from a inv have one: "list_all level_ok
      (users_collection (snd (complete_task env_llm_down ''t1'' scenario_db)))"
    by simp
  from b stale_level_values fits have two: "\<exists>user'. find_one (\<lambda>u. u_id u = ''u2'')
      (users_collection (snd (complete_task env_llm_down ''t2'' stale_level_db))) = Some user' \<and>
      u_xp user' = 260 \<and> u_level user' = 2"
    by simp
  from c enc ok empty have three: "fst (create_user alice empty_db) = Inr alice \<and>
      list_all level_ok (users_collection (snd (create_user alice empty_db)))"
    by simp
  from d over have four: "create_user (alice\<lparr>u_xp := 9223372036854775808\<rparr>) empty_db =
      (Inl (Unhandled OverflowError), empty_db)"
    by (simp add: prod_eq_iff)
  from inv one two three enc over four show ?thesis
    by (simp add: stale_level_values)
qed

text \<open>A user posted with 250 XP and level 1 is stored as posted; the rule asks for level 2.\<close>

theorem create_user_stale_level_counterexample:
  "u_xp bob = 250 \<and> u_level bob = 1 \<and>
   list_all level_ok (users_collection empty_db) \<and>
   fst (create_user bob empty_db) = Inr bob \<and>
   \<not> list_all level_ok (users_collection (snd (create_user bob empty_db)))"
  by (simp add: create_user_def empty_db_def insert_one_def bob_def default_User_def
      level_ok_def level_of_def encodable_User_def bson_int_def)

subsection \<open>The coaching message absorbs the failures that derive from Exception\<close>

text \<open>
  C7, as the code has it. Let a non-empty credential be configured and let the call to
  the language model, made with the chat and the user message the code builds, raise an
  exception. If the exception derives from \<^verbatim>\<open>Exception\<close>, \<^verbatim>\<open>get_ai_coaching_message\<close>
  returns the template "Amazing work on '<title>'! You're crushing it at level <level>!"
  followed by the emoji, in which the task title occurs and the level occurs in decimal
  (the string written for the level reads back as the level). If it does not, the
  exception reaches the caller. On no input does an exception that derives from
  \<^verbatim>\<open>Exception\<close> reach the caller.
\<close>

theorem get_ai_coaching_message_absorbs_failure:
  assumes key: "EMERGENT_LLM_KEY e = Some key" "key \<noteq> []"
    and failed: "send_message e (coaching_chat key user_name)
                   (user_message task_title xp_gained user_level) = Inl exn"
  shows "(is_Exception exn \<longrightarrow>
            (\<exists>m. get_ai_coaching_message e user_name task_title user_level xp_gained = Inr m \<and>
               m = ''Amazing work on '' @ [CHR 0x27] @ task_title @ [CHR 0x27] @
                   ''! You're crushing it at level '' @ str_int user_level @ ''! '' @
                   party_popper \<and>
               sublist task_title m \<and> sublist (str_int user_level) m \<and>
               decimal_int (str_int user_level) = user_level)) \<and>
         (\<not> is_Exception exn \<longrightarrow>
            get_ai_coaching_message e user_name task_title user_level xp_gained = Inl exn) \<and>
         (\<forall>exn'. get_ai_coaching_message e' user_name' task_title' user_level' xp_gained' =
                   Inl exn' \<longrightarrow> \<not> is_Exception exn')"
proof (intro conjI impI allI)
  have raised: "coaching_try e user_name task_title user_level xp_gained = Inl exn"
    using key failed by (simp add: coaching_try_def)
  have title: "sublist task_title (templated_fallback task_title user_level)"
    unfolding sublist_def templated_fallback_def
    by (intro exI [of _ "''Amazing work on '' @ [CHR 0x27]"]
        exI [of _ "[CHR 0x27] @ ''! You're crushing it at level '' @ str_int user_level @
                   ''! '' @ party_popper"]) simp
  have level: "sublist (str_int user_level) (templated_fallback task_title user_level)"
    unfolding sublist_def templated_fallback_def
    by (intro exI [of _ "''Amazing work on '' @ [CHR 0x27] @ task_title @ [CHR 0x27] @
                         ''! You're crushing it at level ''"]
        exI [of _ "''! '' @ party_popper"]) simp
  {
    assume "is_Exception exn"
    then show "\<exists>m. get_ai_coaching_message e user_name task_title user_level xp_gained = Inr m \<and>
               m = ''Amazing work on '' @ [CHR 0x27] @ task_title @ [CHR 0x27] @
                   ''! You're crushing it at level '' @ str_int user_level @ ''! '' @
                   party_popper \<and>
               sublist task_title m \<and> sublist (str_int user_level) m \<and>
               decimal_int (str_int user_level) = user_level"
      using title level
      by (simp add: get_ai_coaching_message_def raised templated_fallback_def
          decimal_int_str_int)
  }
  {
    assume "\<not> is_Exception exn"
    then show "get_ai_coaching_message e user_name task_title user_level xp_gained = Inl exn"
      by (simp add: get_ai_coaching_message_def raised)
  }
  {
    fix exn'
    assume "get_ai_coaching_message e' user_name' task_title' user_level' xp_gained' = Inl exn'"
    then show "\<not> is_Exception exn'"
      by (auto simp: get_ai_coaching_message_def split: sum.splits if_splits)
  }
qed

text \<open>
  The call times out for the task "Write report" at level 12; and the request is
  cancelled while the call is awaited.
\<close>

theorem get_ai_coaching_message_absorbs_failure_witness:
  "EMERGENT_LLM_KEY env_llm_down = Some ''sk-test'' \<and>
   send_message env_llm_down (coaching_chat ''sk-test'' ''Alice'')
     (user_message ''Write report'' 15 12) = Inl TimeoutError \<and>
   is_Exception TimeoutError \<and>
   get_ai_coaching_message env_llm_down ''Alice'' ''Write report'' 12 15 =
     Inr (''Amazing work on '' @ [CHR 0x27] @ ''Write report'' @ [CHR 0x27] @
          ''! You're crushing it at level 12! '' @ [CHR 0xF0, CHR 0x9F, CHR 0x8E, CHR 0x89]) \<and>
   decimal_int ''12'' = 12 \<and>
   EMERGENT_LLM_KEY env_cancelled = Some ''sk-test'' \<and>
   send_message env_cancelled (coaching_chat ''sk-test'' ''Alice'')
     (user_message ''Write report'' 15 12) = Inl CancelledError \<and>
   \<not> is_Exception CancelledError \<and>
   get_ai_coaching_message env_cancelled ''Alice'' ''Write report'' 12 15 = Inl CancelledError"
proof -
  have key: "EMERGENT_LLM_KEY env_llm_down = Some ''sk-test''" "''sk-test'' \<noteq> []"
    by (simp_all add: env_llm_down_def)
  have failed: "send_message env_llm_down (coaching_chat ''sk-test'' ''Alice'')
     (user_message ''Write report'' 15 12) = Inl TimeoutError"
    by (simp add: env_llm_down_def)
  have key': "EMERGENT_LLM_KEY env_cancelled = Some ''sk-test''"
    by (simp add: env_cancelled_def)
  have failed': "send_message env_cancelled (coaching_chat ''sk-test'' ''Alice'')
     (user_message ''Write report'' 15 12) = Inl CancelledError"
    by (simp add: env_cancelled_def)
  note a = get_ai_coaching_message_absorbs_failure [OF key failed]
  note b = get_ai_coaching_message_absorbs_failure [OF key' key(2) failed']
  from a have one: "get_ai_coaching_message env_llm_down ''Alice'' ''Write report'' 12 15 =
     Inr (''Amazing work on '' @ [CHR 0x27] @ ''Write report'' @ [CHR 0x27] @
          ''! You're crushing it at level 12! '' @ [CHR 0xF0, CHR 0x9F, CHR 0x8E, CHR 0x89])"
    and two: "decimal_int ''12'' = 12"
    by (simp_all add: str_int_12 party_popper_def)
  from b have three:
    "get_ai_coaching_message env_cancelled ''Alice'' ''Write report'' 12 15 = Inl CancelledError"
    by simp
  from key(1) failed key' failed' one two three show ?thesis
    by simp
qed

text \<open>
  The request is cancelled while the call to the language model is awaited:
  \<^verbatim>\<open>asyncio.CancelledError\<close> passes the handler, and \<^verbatim>\<open>complete_task\<close> fails with it.
\<close>

theorem get_ai_coaching_message_cancelled_counterexample:
  "EMERGENT_LLM_KEY env_cancelled = Some ''sk-test'' \<and>
   send_message env_cancelled (coaching_chat ''sk-test'' ''Alice'')
     (user_message ''Write report'' 15 2) = Inl CancelledError \<and>
   get_ai_coaching_message env_cancelled ''Alice'' ''Write report'' 2 15 = Inl CancelledError \<and>
   fst (complete_task env_cancelled ''t1'' scenario_db) = Inl (Unhandled CancelledError)"
proof -
  have msg: "get_ai_coaching_message env_cancelled n t l x = Inl CancelledError" for n t l x
    by (simp add: get_ai_coaching_message_def coaching_try_def env_cancelled_def)
  have key: "EMERGENT_LLM_KEY env_cancelled = Some ''sk-test''"
    by (simp add: env_cancelled_def)
  have failed: "send_message env_cancelled (coaching_chat ''sk-test'' ''Alice'')
     (user_message ''Write report'' 15 2) = Inl CancelledError"
    by (simp add: env_cancelled_def)
  have run: "fst (complete_task env_cancelled ''t1'' scenario_db) =
      Inl (Unhandled CancelledError)"
    unfolding complete_task_uncaught
      [OF scenario_task scenario_values(1) scenario_owner scenario_fits msg]
    by simp
  from key failed msg run show ?thesis
    by (intro conjI)
qed

subsection \<open>Reading the avatar state\<close>

text \<open>
  C8. \<^verbatim>\<open>get_avatar_state\<close> fails with status 404 "User not found" when no user document
  carries the id. For a user that exists and has no avatar state it answers with the
  user's stored mood, the animation "idle", a greeting in which the user's name occurs,
  and the user's XP and level. In every case it leaves the database as it found it.
\<close>

theorem get_avatar_state_default_view:
  "(find_one (\<lambda>u. u_id u = user_id) (users_collection s) = None \<longrightarrow>
      fst (get_avatar_state user_id s) = Inl (HTTPException 404 ''User not found'')) \<and>
   (\<forall>user.
      find_one (\<lambda>u. u_id u = user_id) (users_collection s) = Some user \<and>
      filter (\<lambda>a. a_user_id a = user_id) (avatar_states_collection s) = [] \<longrightarrow>
      fst (get_avatar_state user_id s) =
        Inr \<lparr>v_mood = u_avatar_mood user, v_animation = ''idle'',
             v_message = Some (''Hey '' @ u_name user @
                               ''! I'm ready to celebrate your productivity! '' @ direct_hit),
             v_xp = u_xp user, v_level = u_level user\<rparr> \<and>
      sublist (u_name user)
        (''Hey '' @ u_name user @ ''! I'm ready to celebrate your productivity! '' @
         direct_hit)) \<and>
   snd (get_avatar_state user_id s) = s"
proof (intro conjI allI impI)
  assume "find_one (\<lambda>u. u_id u = user_id) (users_collection s) = None"
  then show "fst (get_avatar_state user_id s) = Inl (HTTPException 404 ''User not found'')"
    by (simp add: get_avatar_state_def)
next
  fix user
  assume "find_one (\<lambda>u. u_id u = user_id) (users_collection s) = Some user \<and>
      filter (\<lambda>a. a_user_id a = user_id) (avatar_states_collection s) = []"
  then show "fst (get_avatar_state user_id s) =
        Inr \<lparr>v_mood = u_avatar_mood user, v_animation = ''idle'',
             v_message = Some (''Hey '' @ u_name user @
                               ''! I'm ready to celebrate your productivity! '' @ direct_hit),
             v_xp = u_xp user, v_level = u_level user\<rparr>"
    by (simp add: get_avatar_state_def find_one_sorted_desc_def greeting_def)
next
  fix user
  show "sublist (u_name user)
        (''Hey '' @ u_name user @ ''! I'm ready to celebrate your productivity! '' @
         direct_hit)"
    by (rule sublist_appendI)
next
  show "snd (get_avatar_state user_id s) = s"
    by (simp add: get_avatar_state_def split: option.split)
qed

theorem get_avatar_state_default_view_witness:
  "find_one (\<lambda>u. u_id u = ''u1'') (users_collection empty_db) = None \<and>
   fst (get_avatar_state ''u1'' empty_db) = Inl (HTTPException 404 ''User not found'') \<and>
   find_one (\<lambda>u. u_id u = ''u1'') (users_collection scenario_db) = Some alice \<and>
   filter (\<lambda>a. a_user_id a = ''u1'') (avatar_states_collection scenario_db) = [] \<and>
   fst (get_avatar_state ''u1'' scenario_db) =
     Inr \<lparr>v_mood = ''neutral'', v_animation = ''idle'',
          v_message = Some (''Hey Alice! I'm ready to celebrate your productivity! '' @
                            [CHR 0xF0, CHR 0x9F, CHR 0x8E, CHR 0xAF]),
          v_xp = 190, v_level = 1\<rparr> \<and>
   snd (get_avatar_state ''u1'' scenario_db) = scenario_db"
proof -
  have none: "find_one (\<lambda>u. u_id u = ''u1'') (users_collection empty_db) = None"
    by (simp add: empty_db_def)
  have user: "find_one (\<lambda>u. u_id u = ''u1'') (users_collection scenario_db) = Some alice"
    using scenario_owner by (simp add: scenario_values)
  have nostate: "filter (\<lambda>a. a_user_id a = ''u1'') (avatar_states_collection scenario_db) = []"
    by (simp add: scenario_values)
  have vals: "u_avatar_mood alice = ''neutral''" "u_name alice = ''Alice''"
    by (simp_all add: alice_def default_User_def)
  from get_avatar_state_default_view [of "''u1''" empty_db]
    get_avatar_state_default_view [of "''u1''" scenario_db]
  show ?thesis
    using none user nostate by (simp add: vals scenario_values direct_hit_def)
qed

text \<open>
  C10. For a user that exists and has at least one avatar state, the answer carries the
  mood, animation and message of one of the user's avatar states whose timestamp no other
  of the user's avatar states exceeds, and the XP and level of the user document as it is
  in the database at the call.
\<close>

theorem get_avatar_state_latest:
  assumes user: "find_one (\<lambda>u. u_id u = user_id) (users_collection s) = Some user"
    and some: "\<exists>a \<in> set (avatar_states_collection s). a_user_id a = user_id"
  shows "\<exists>a. a \<in> set (avatar_states_collection s) \<and> a_user_id a = user_id \<and>
           (\<forall>b \<in> set (avatar_states_collection s).
              a_user_id b = user_id \<longrightarrow> a_timestamp b \<le> a_timestamp a) \<and>
           get_avatar_state user_id s =
             (Inr \<lparr>v_mood = a_mood a, v_animation = a_animation a, v_message = a_message a,
                   v_xp = u_xp user, v_level = u_level user\<rparr>, s)"
proof -
  let ?mine = "filter (\<lambda>a. a_user_id a = user_id) (avatar_states_collection s)"
  from some have "?mine \<noteq> []"
    by (auto simp: filter_empty_conv)
  then obtain a where a: "latest ?mine = Some a"
    using latest_None [of ?mine] by (cases "latest ?mine") auto
  from latest_Some [OF a]
  have mem: "a \<in> set (avatar_states_collection s)" "a_user_id a = user_id"
    and top: "\<forall>b \<in> set (avatar_states_collection s).
                a_user_id b = user_id \<longrightarrow> a_timestamp b \<le> a_timestamp a"
    by auto
  have "get_avatar_state user_id s =
      (Inr \<lparr>v_mood = a_mood a, v_animation = a_animation a, v_message = a_message a,
            v_xp = u_xp user, v_level = u_level user\<rparr>, s)"
    using user a by (simp add: get_avatar_state_def find_one_sorted_desc_def)
  with mem top show ?thesis
    by blast
qed

text \<open>
  The states of \<open>u1\<close> were written at times 9 and 5, the later one first in insertion
  order; another user's state at time 20 is not looked at.
\<close>

theorem get_avatar_state_latest_witness:
  "find_one (\<lambda>u. u_id u = ''u1'') (users_collection history_db) = Some alice \<and>
   (\<exists>a \<in> set (avatar_states_collection history_db). a_user_id a = ''u1'') \<and>
   map a_timestamp (filter (\<lambda>a. a_user_id a = ''u1'') (avatar_states_collection history_db)) =
     [9, 5] \<and>
   get_avatar_state ''u1'' history_db =
     (Inr \<lparr>v_mood = ''excited'', v_animation = ''celebrate'', v_message = Some ''Level up!'',
           v_xp = 190, v_level = 1\<rparr>, history_db)"
proof -
  have user: "find_one (\<lambda>u. u_id u = ''u1'') (users_collection history_db) = Some alice"
    by (simp add: history_db_def alice_def default_User_def)
  have some: "\<exists>a \<in> set (avatar_states_collection history_db). a_user_id a = ''u1''"
    by (simp add: history_db_def)
  have stamps: "map a_timestamp
      (filter (\<lambda>a. a_user_id a = ''u1'') (avatar_states_collection history_db)) = [9, 5]"
    by (simp add: history_db_def)
  from get_avatar_state_latest [OF user some]
  obtain a where a: "a \<in> set (avatar_states_collection history_db)" "a_user_id a = ''u1''"
      "\<forall>b \<in> set (avatar_states_collection history_db).
         a_user_id b = ''u1'' \<longrightarrow> a_timestamp b \<le> a_timestamp a"
    and view: "get_avatar_state ''u1'' history_db =
      (Inr \<lparr>v_mood = a_mood a, v_animation = a_animation a, v_message = a_message a,
            v_xp = u_xp alice, v_level = u_level alice\<rparr>, history_db)"
    by blast
  from a have "a_mood a = ''excited'' \<and> a_animation a = ''celebrate'' \<and>
      a_message a = Some ''Level up!''"
    by (auto simp: history_db_def)
  with view user some stamps show ?thesis
    by (simp add: scenario_values)
qed

subsection \<open>The reward of a task\<close>

text \<open>
  C9, as the code has it. No endpoint changes the \<^verbatim>\<open>xp_reward\<close> of a stored task:
  \<^verbatim>\<open>complete_task\<close> keeps the rewards and ids of all tasks, position by position;
  \<^verbatim>\<open>create_task\<close> appends one task whose reward is the integer of the request when the
  store can encode it, and otherwise raises \<^verbatim>\<open>OverflowError\<close> and leaves the database as
  it was; \<^verbatim>\<open>delete_task\<close> removes at most one task and leaves the others as they are; the
  remaining endpoints leave the tasks alone. The reward itself is whatever integer the
  request carried, positive or not.
\<close>

theorem xp_reward_fixed_at_creation:
  "map t_xp_reward (tasks_collection (snd (complete_task e task_id s))) =
     map t_xp_reward (tasks_collection s) \<and>
   map t_id (tasks_collection (snd (complete_task e task_id s))) =
     map t_id (tasks_collection s) \<and>
   (bson_int (tc_xp_reward task_create) \<longrightarrow>
      (\<exists>task. fst (create_task uuid now task_create user_id s) = Inr task \<and>
         tasks_collection (snd (create_task uuid now task_create user_id s)) =
           tasks_collection s @ [task] \<and>
         t_xp_reward task = tc_xp_reward task_create)) \<and>
   (\<not> bson_int (tc_xp_reward task_create) \<longrightarrow>
      fst (create_task uuid now task_create user_id s) = Inl (Unhandled OverflowError) \<and>
      snd (create_task uuid now task_create user_id s) = s) \<and>
   (\<exists>as bs. tasks_collection (snd (delete_task task_id s)) = as @ bs \<and>
      (tasks_collection s = as @ bs \<or> (\<exists>task. tasks_collection s = as @ task # bs))) \<and>
   tasks_collection (snd (create_user user s)) = tasks_collection s \<and>
   tasks_collection (snd (get_user user_id s)) = tasks_collection s \<and>
   tasks_collection (snd (get_user_tasks user_id s)) = tasks_collection s \<and>
   tasks_collection (snd (get_avatar_state user_id s)) = tasks_collection s"
proof (intro conjI)
  have tasks: "tasks_collection (snd (complete_task e task_id s)) = tasks_collection s \<or>
      tasks_collection (snd (complete_task e task_id s)) =
        update_one (\<lambda>t. t_id t = task_id)
          (\<lambda>t. t\<lparr>t_completed := True, t_completed_at := Some (now_completed e)\<rparr>)
          (tasks_collection s)"
    by (auto simp: complete_task_def Let_def split: option.splits sum.splits)
  then show "map t_xp_reward (tasks_collection (snd (complete_task e task_id s))) =
     map t_xp_reward (tasks_collection s)"
    by (auto simp: map_update_one)
  from tasks show "map t_id (tasks_collection (snd (complete_task e task_id s))) =
     map t_id (tasks_collection s)"
    by (auto simp: map_update_one)
next
  show "bson_int (tc_xp_reward task_create) \<longrightarrow>
      (\<exists>task. fst (create_task uuid now task_create user_id s) = Inr task \<and>
         tasks_collection (snd (create_task uuid now task_create user_id s)) =
           tasks_collection s @ [task] \<and>
         t_xp_reward task = tc_xp_reward task_create)"
    by (simp add: create_task_def insert_one_def Let_def encodable_Task_def)
next
  show "\<not> bson_int (tc_xp_reward task_create) \<longrightarrow>
      fst (create_task uuid now task_create user_id s) = Inl (Unhandled OverflowError) \<and>
      snd (create_task uuid now task_create user_id s) = s"
    by (simp add: create_task_def Let_def encodable_Task_def)
next
  obtain ys n where del: "delete_one (\<lambda>t. t_id t = task_id) (tasks_collection s) = (ys, n)"
    by (cases "delete_one (\<lambda>t. t_id t = task_id) (tasks_collection s)")
  then have after: "tasks_collection (snd (delete_task task_id s)) = ys"
    by (simp add: delete_task_def)
  from delete_one_cases [OF del]
  show "\<exists>as bs. tasks_collection (snd (delete_task task_id s)) = as @ bs \<and>
      (tasks_collection s = as @ bs \<or> (\<exists>task. tasks_collection s = as @ task # bs))"
  proof
    assume "n = 0 \<and> ys = tasks_collection s"
    then have "ys = [] @ ys \<and> tasks_collection s = [] @ ys" by simp
    then show ?thesis unfolding after by blast
  next
    assume "n = 1 \<and> (\<exists>as t bs. tasks_collection s = as @ t # bs \<and> ys = as @ bs)"
    then show ?thesis unfolding after by blast
  qed
next
  show "tasks_collection (snd (create_user user s)) = tasks_collection s"
    by (simp add: create_user_def)
next
  show "tasks_collection (snd (get_user user_id s)) = tasks_collection s"
    by (simp add: get_user_def split: option.split)
next
  show "tasks_collection (snd (get_user_tasks user_id s)) = tasks_collection s"
    by (simp add: get_user_tasks_def)
next
  show "tasks_collection (snd (get_avatar_state user_id s)) = tasks_collection s"
    by (simp add: get_avatar_state_def split: option.split)
qed

text \<open>A task posted with the reward -5 is stored with the reward -5.\<close>

text \<open>
  A task of the default reward 10 is appended to the task worth 15; a reward of
  9223372036854775808 is refused; completing the task worth 15 keeps its reward.
\<close>

theorem xp_reward_fixed_at_creation_witness:
  "bson_int 10 \<and>
   map t_xp_reward
     (tasks_collection (snd (create_task ''t2'' 1 (default_TaskCreate ''Tidy desk'') ''u2''
                               scenario_db))) = [15, 10] \<and>
   \<not> bson_int 9223372036854775808 \<and>
   create_task ''t2'' 1
     \<lparr>tc_title = ''Tidy desk'', tc_description = None, tc_xp_reward = 9223372036854775808\<rparr>
     ''u2'' scenario_db = (Inl (Unhandled OverflowError), scenario_db) \<and>
   map t_xp_reward (tasks_collection (snd (complete_task env_llm_down ''t1'' scenario_db))) =
     [15]"
proof -
  have small: "bson_int (tc_xp_reward (default_TaskCreate ''Tidy desk''))"
    and ten: "tc_xp_reward (default_TaskCreate ''Tidy desk'') = 10"
    by (simp_all add: default_TaskCreate_def bson_int_def)
  have big: "\<not> bson_int (tc_xp_reward
      \<lparr>tc_title = ''Tidy desk'', tc_description = None, tc_xp_reward = 9223372036854775808\<rparr>)"
    by (simp add: bson_int_def)
  have before: "map t_xp_reward (tasks_collection scenario_db) = [15]"
    by (simp add: scenario_db_def scenario_values)
  note a = xp_reward_fixed_at_creation
    [of env_llm_down "''t1''" scenario_db "default_TaskCreate ''Tidy desk''" "''t2''" 1 "''u2''"]
  note b = xp_reward_fixed_at_creation
    [of env_llm_down "''t1''" scenario_db
      "\<lparr>tc_title = ''Tidy desk'', tc_description = None, tc_xp_reward = 9223372036854775808\<rparr>"
      "''t2''" 1 "''u2''"]
  from a small obtain task where
    "tasks_collection (snd (create_task ''t2'' 1 (default_TaskCreate ''Tidy desk'') ''u2''
                              scenario_db)) = tasks_collection scenario_db @ [task]"
    and "t_xp_reward task = tc_xp_reward (default_TaskCreate ''Tidy desk'')"
    by blast
  with ten before have one: "map t_xp_reward
     (tasks_collection (snd (create_task ''t2'' 1 (default_TaskCreate ''Tidy desk'') ''u2''
                               scenario_db))) = [15, 10]"
    by simp
  from b big have two: "create_task ''t2'' 1
     \<lparr>tc_title = ''Tidy desk'', tc_description = None, tc_xp_reward = 9223372036854775808\<rparr>
     ''u2'' scenario_db = (Inl (Unhandled OverflowError), scenario_db)"
    by (simp add: prod_eq_iff)
  from a before have three: "map t_xp_reward
      (tasks_collection (snd (complete_task env_llm_down ''t1'' scenario_db))) = [15]"
    by simp
  from one two three small ten big show ?thesis
    by simp
qed

text \<open>A task posted with the reward -5 is stored with the reward -5.\<close>

theorem create_task_nonpositive_reward_counterexample:
  "list_all (\<lambda>t. 0 < t_xp_reward t) (tasks_collection empty_db) \<and>
   map t_xp_reward
     (tasks_collection
        (snd (create_task ''t1'' 1
                \<lparr>tc_title = ''Write report'', tc_description = None, tc_xp_reward = - 5\<rparr>
                ''u1'' empty_db))) = [- 5] \<and>
   \<not> list_all (\<lambda>t. 0 < t_xp_reward t)
       (tasks_collection
          (snd (create_task ''t1'' 1
                  \<lparr>tc_title = ''Write report'', tc_description = None, tc_xp_reward = - 5\<rparr>
                  ''u1'' empty_db)))"
  by (simp add: create_task_def empty_db_def insert_one_def Let_def encodable_Task_def
      bson_int_def)

end
